theory Spec2Isabelle
  imports Main "HOL-Library.AList" "HOL-Library.Char_ord" "HOL-Library.List_Lexorder"
begin

section \<open>Values, errors and outcomes\<close>

text \<open>
  A Go \<^verbatim>\<open>interface{}\<close> value, by its dynamic type. \<open>GFunc\<close> stands for the values
  (functions, channels) that have no JSON form. The type assertion \<^verbatim>\<open>k.(string)\<close>
  of the sinks succeeds on \<open>GString\<close> only.
\<close>

datatype gval = GString string | GInt int | GBool bool | GNil | GFunc

text \<open>
  What the program observes of a non-nil \<^verbatim>\<open>error\<close>: the text of \<^verbatim>\<open>Error()\<close> and,
  when the value has a \<^verbatim>\<open>StackTrace()\<close> method, that trace rendered by \<^verbatim>\<open>%+v\<close>.
  A nil error is \<open>None\<close> of \<open>gerror option\<close>.
\<close>

datatype gerror = GoError (err_text: string) (err_stack: "string option")

text \<open>A call either returns or panics (index out of range, nil dereference).\<close>

datatype 'a outcome = Panic | Return 'a

type_synonym time_Time = int

section \<open>defaults.go\<close>

record EncodedError =
  Message :: string
  StackTrace :: string

definition DefaultErrorEncoder :: "gerror \<Rightarrow> EncodedError" where
  "DefaultErrorEncoder err =
     (let encoded = \<lparr>Message = err_text err, StackTrace = []\<rparr>
      in case err_stack err of
           Some tr \<Rightarrow> encoded\<lparr>StackTrace := tr\<rparr>
         | None \<Rightarrow> encoded)"

record SeverityThreshold =
  Level :: int
  Severity :: string

text \<open>The loop of the severity encoder over the thresholds, first to last.\<close>

fun scan_thresholds :: "string \<Rightarrow> SeverityThreshold list \<Rightarrow> int \<Rightarrow> string" where
  "scan_thresholds defaultSeverity [] level = defaultSeverity"
| "scan_thresholds defaultSeverity (threshold # rest) level =
     (if level \<ge> SeverityThreshold.Level threshold then Severity threshold
      else scan_thresholds defaultSeverity rest level)"

definition DefaultSeverityEncoder ::
  "string \<Rightarrow> string \<Rightarrow> SeverityThreshold list \<Rightarrow> int \<Rightarrow> gerror option \<Rightarrow> string" where
  "DefaultSeverityEncoder defaultSeverity errSeverity thresholds level err =
     (if err \<noteq> None then errSeverity
      else scan_thresholds defaultSeverity thresholds level)"

text \<open>\<^verbatim>\<open>strings.Join\<close>.\<close>

fun strings_Join :: "string list \<Rightarrow> string \<Rightarrow> string" where
  "strings_Join [] sep = []"
| "strings_Join [x] sep = x"
| "strings_Join (x # y # rest) sep = x @ sep @ strings_Join (y # rest) sep"

definition DefaultNameEncoder :: "string \<Rightarrow> string list \<Rightarrow> string" where
  "DefaultNameEncoder separator names = strings_Join names separator"

definition DefaultMessageKey :: string where "DefaultMessageKey = ''msg''"
definition DefaultNameKey :: string where "DefaultNameKey = ''name''"
definition DefaultTimestampKey :: string where "DefaultTimestampKey = ''ts''"
definition DefaultNameSeparator :: string where "DefaultNameSeparator = ''.''"
definition DefaultTraceVerbosity :: int where "DefaultTraceVerbosity = 2"
definition DefaultDebugVerbosity :: int where "DefaultDebugVerbosity = 1"
definition DefaultSeverityKey :: string where "DefaultSeverityKey = ''severity''"
definition DefaultErrorKey :: string where "DefaultErrorKey = ''error''"
definition DefaultStackTraceKey :: string where "DefaultStackTraceKey = ''stacktrace''"
definition DefaultSeverity :: string where "DefaultSeverity = ''INFO''"
definition DefaultErrorSeverity :: string where "DefaultErrorSeverity = ''ERROR''"
definition DefaultEntrySuffix :: string where "DefaultEntrySuffix = [CHR 0x0A]"
definition DefaultSpaceSeparator :: string where "DefaultSpaceSeparator = '' ''"

definition DefaultSeverityThresholds :: "SeverityThreshold list" where
  "DefaultSeverityThresholds =
     [\<lparr>Level = DefaultTraceVerbosity, Severity = ''TRACE''\<rparr>,
      \<lparr>Level = DefaultDebugVerbosity, Severity = ''DEBUG''\<rparr>]"

section \<open>Go slices\<close>

text \<open>
  The Logger keeps its names and values in slices, and a slice is a view of a backing
  array that other slices may share. A slice header is an address, a length and a
  capacity; the heap maps an address to the backing array there (as long as the
  capacity, since the program never reslices from the front). Address 0 is kept for the
  nil slice.
\<close>

record slice =
  ptr :: nat
  len :: nat
  cap :: nat

record 'a heap =
  arrays :: "nat \<Rightarrow> 'a list"
  next_free :: nat

definition nil_slice :: slice where
  "nil_slice = \<lparr>ptr = 0, len = 0, cap = 0\<rparr>"

definition empty_heap :: "'a heap" where
  "empty_heap = \<lparr>arrays = (\<lambda>_. []), next_free = 1\<rparr>"

definition slice_elems :: "'a heap \<Rightarrow> slice \<Rightarrow> 'a list" where
  "slice_elems h s = take (len s) (arrays h (ptr s))"

text \<open>
  The built-in \<^verbatim>\<open>append(s, xs...)\<close>: with room in the backing array it writes the new
  elements there, past the length of \<open>s\<close>, and returns a longer view of the same array;
  without room it allocates a new array of the capacity \<open>grow\<close> chooses and copies.
  \<open>zero\<close> is the element type's zero value, filling the unused capacity.
\<close>

definition go_append ::
  "(nat \<Rightarrow> nat \<Rightarrow> nat) \<Rightarrow> 'a \<Rightarrow> 'a heap \<Rightarrow> slice \<Rightarrow> 'a list \<Rightarrow> 'a heap \<times> slice" where
  "go_append grow zero h s xs =
     (let n = len s + length xs in
      if n \<le> cap s then
        (h\<lparr>arrays := (arrays h)
             (ptr s := take (len s) (arrays h (ptr s)) @ xs @ drop n (arrays h (ptr s)))\<rparr>,
         s\<lparr>len := n\<rparr>)
      else
        (let c = grow (cap s) n; p = next_free h in
         (h\<lparr>arrays := (arrays h)(p := slice_elems h s @ xs @ replicate (c - n) zero),
            next_free := Suc p\<rparr>,
          \<lparr>ptr = p, len = n, cap = c\<rparr>)))"

text \<open>
  The capacity the Go runtime chooses when a slice of capacity \<open>old\<close> (below 256) must
  grow to hold \<open>n\<close> elements: \<open>n\<close> if that is more than double, else double.
\<close>

definition growslice :: "nat \<Rightarrow> nat \<Rightarrow> nat" where
  "growslice old n = (if n > old + old then n else old + old)"

text \<open>The built-in \<^verbatim>\<open>copy(dst, src)\<close>: as many elements as both hold.\<close>

definition go_copy :: "'a list \<Rightarrow> 'a list \<Rightarrow> 'a list" where
  "go_copy dst src =
     (let n = min (length dst) (length src) in take n src @ drop n dst)"

section \<open>logger.go\<close>

record Entry =
  Level :: int
  Names :: "string list"
  Timestamp :: time_Time
  Message :: string
  KVs :: "gval list"
  Error :: "gerror option"

text \<open>
  A sink's \<^verbatim>\<open>Log\<close> acts on the world \<open>'w\<close> (the destination it writes to) and returns
  an error or nil, unless it panics. The options are those of a constructed Logger:
  \<^verbatim>\<open>New\<close> has filled in the sink and the error handler.
\<close>

record 'w Options =
  Sink :: "Entry \<Rightarrow> 'w \<Rightarrow> gerror option outcome \<times> 'w"
  Verbosity :: int
  ErrorHandler :: "gerror \<Rightarrow> 'w \<Rightarrow> unit outcome \<times> 'w"

record 'w Logger =
  info :: int
  options :: "'w Options"
  names :: slice
  "values" :: slice

text \<open>The memory the Loggers' slices live in.\<close>

record mem =
  names_heap :: "string heap"
  values_heap :: "gval heap"

definition empty_mem :: mem where
  "empty_mem = \<lparr>names_heap = empty_heap, values_heap = empty_heap\<rparr>"

text \<open>\<^verbatim>\<open>errors.New\<close> of pkg/errors: the message, and the call stack at the call.\<close>

definition errors_New :: "string \<Rightarrow> string \<Rightarrow> gerror" where
  "errors_New stack msg = GoError msg (Some stack)"

definition Logger_Enabled :: "'w Logger \<Rightarrow> int \<Rightarrow> bool" where
  "Logger_Enabled l level = (Verbosity (options l) \<ge> level)"

text \<open>
  \<open>now\<close> is the clock's reading and \<open>stack\<close> the call stack \<^verbatim>\<open>errors.New\<close> would
  capture. A panic of the sink is not recovered.
\<close>

definition Logger_log ::
  "mem \<Rightarrow> 'w Logger \<Rightarrow> time_Time \<Rightarrow> string \<Rightarrow> int \<Rightarrow> gerror option \<Rightarrow> string \<Rightarrow>
   gval list \<Rightarrow> 'w \<Rightarrow> unit outcome \<times> 'w" where
  "Logger_log m l now stack level err msg keysAndValues w =
     (let kvsLen = len (values l) + length keysAndValues in
      if kvsLen mod 2 \<noteq> 0 then
        (case Sink (options l)
                \<lparr>Level = 0,
                 Names = slice_elems (names_heap m) (names l),
                 Timestamp = now,
                 Message = [],
                 KVs = [],
                 Error = Some (errors_New stack
                   ''odd number of arguments passed as key-value pairs for logging'')\<rparr> w of
           (Panic, w') \<Rightarrow> (Panic, w')
         | (Return None, w') \<Rightarrow> (Return (), w')
         | (Return (Some err'), w') \<Rightarrow> ErrorHandler (options l) err' w')
      else
        (let kvs = replicate kvsLen GNil;
             kvs = go_copy (take (len (values l)) kvs)
                     (slice_elems (values_heap m) (values l)) @ drop (len (values l)) kvs;
             kvs = take (len (values l)) kvs @
                   go_copy (drop (len (values l)) kvs) keysAndValues
         in case Sink (options l)
                \<lparr>Level = level,
                 Names = slice_elems (names_heap m) (names l),
                 Timestamp = now,
                 Message = msg,
                 KVs = kvs,
                 Error = err\<rparr> w of
           (Panic, w') \<Rightarrow> (Panic, w')
         | (Return None, w') \<Rightarrow> (Return (), w')
         | (Return (Some err'), w') \<Rightarrow> ErrorHandler (options l) err' w'))"

definition Logger_Info ::
  "mem \<Rightarrow> 'w Logger \<Rightarrow> time_Time \<Rightarrow> string \<Rightarrow> int \<Rightarrow> string \<Rightarrow> gval list \<Rightarrow> 'w \<Rightarrow>
   unit outcome \<times> 'w" where
  "Logger_Info m l now stack level msg keysAndValues w =
     Logger_log m l now stack level None msg keysAndValues w"

definition Logger_Error ::
  "mem \<Rightarrow> 'w Logger \<Rightarrow> time_Time \<Rightarrow> string \<Rightarrow> gerror option \<Rightarrow> string \<Rightarrow> gval list \<Rightarrow>
   'w \<Rightarrow> unit outcome \<times> 'w" where
  "Logger_Error m l now stack err msg keysAndValues w =
     Logger_log m l now stack 0 err msg keysAndValues w"

text \<open>
  The receiver \<open>l\<close> is a copy of the Logger struct; its slice headers still point at
  the caller's backing arrays. The result is the address of that copy.
\<close>

definition WithValues ::
  "(nat \<Rightarrow> nat \<Rightarrow> nat) \<Rightarrow> mem \<Rightarrow> 'w Logger \<Rightarrow> gval list \<Rightarrow> mem \<times> 'w Logger" where
  "WithValues grow m l keysAndValues =
     (case go_append grow GNil (values_heap m) (values l) keysAndValues of
        (h, s) \<Rightarrow> (m\<lparr>values_heap := h\<rparr>, l\<lparr>values := s\<rparr>))"

definition WithName ::
  "(nat \<Rightarrow> nat \<Rightarrow> nat) \<Rightarrow> mem \<Rightarrow> 'w Logger \<Rightarrow> string \<Rightarrow> mem \<times> 'w Logger" where
  "WithName grow m l name =
     (case go_append grow [] (names_heap m) (names l) [name] of
        (h, s) \<Rightarrow> (m\<lparr>names_heap := h\<rparr>, l\<lparr>names := s\<rparr>))"

text \<open>What a Logger holds, read through its slices.\<close>

definition logger_names :: "mem \<Rightarrow> 'w Logger \<Rightarrow> string list" where
  "logger_names m l = slice_elems (names_heap m) (names l)"

definition logger_values :: "mem \<Rightarrow> 'w Logger \<Rightarrow> gval list" where
  "logger_values m l = slice_elems (values_heap m) (values l)"

text \<open>
  A slice is well formed in a heap when its backing array has its capacity (the nil
  slice apart) and its length is within the capacity.
\<close>

definition slice_ok :: "'a heap \<Rightarrow> slice \<Rightarrow> bool" where
  "slice_ok h s = (len s \<le> cap s \<and> length (arrays h (ptr s)) = cap s \<and> ptr s < next_free h)"

text \<open>A sink that records the entries it is given and fails on none.\<close>

definition recording_sink :: "Entry \<Rightarrow> Entry list \<Rightarrow> gerror option outcome \<times> Entry list" where
  "recording_sink e w = (Return None, w @ [e])"

definition ignoring_handler :: "gerror \<Rightarrow> Entry list \<Rightarrow> unit outcome \<times> Entry list" where
  "ignoring_handler err w = (Return (), w)"

definition new_logger :: "'w Options \<Rightarrow> 'w Logger" where
  "new_logger opts = \<lparr>info = 0, options = opts, names = nil_slice, values = nil_slice\<rparr>"

definition recording_options :: "Entry list Options" where
  "recording_options =
     \<lparr>Sink = recording_sink, Verbosity = 0, ErrorHandler = ignoring_handler\<rparr>"

text \<open>
  Handing one entry to the sink: a returned error goes to the error handler, a panic
  goes up to the caller.
\<close>

definition dispatch :: "'w Options \<Rightarrow> Entry \<Rightarrow> 'w \<Rightarrow> unit outcome \<times> 'w" where
  "dispatch opts e w =
     (case Sink opts e w of
        (Panic, w') \<Rightarrow> (Panic, w')
      | (Return None, w') \<Rightarrow> (Return (), w')
      | (Return (Some err), w') \<Rightarrow> ErrorHandler opts err w')"

definition usage_error :: "string \<Rightarrow> gerror" where
  "usage_error stack =
     errors_New stack ''odd number of arguments passed as key-value pairs for logging''"

text \<open>
  A Logger with one name and one key-value pair, built as a program would:
  \<^verbatim>\<open>New(opts).WithName("a").WithValues("k", 7)\<close>.
\<close>

definition sample_parent :: "mem \<times> Entry list Logger" where
  "sample_parent =
     (case WithName growslice empty_mem (new_logger recording_options) ''a'' of
        (m, l) \<Rightarrow> WithValues growslice m l [GString ''k'', GInt 7])"

text \<open>
  \<^verbatim>\<open>parent := New(opts).WithName("a").WithName("b").WithName("c")\<close>, then
  \<^verbatim>\<open>first := parent.WithName("x")\<close> and \<^verbatim>\<open>second := parent.WithName("y")\<close>, with the memory
  after each of the last three calls.
\<close>

definition name_family ::
  "mem \<times> Entry list Logger \<times> mem \<times> Entry list Logger \<times> mem \<times> Entry list Logger" where
  "name_family =
     (case WithName growslice empty_mem (new_logger recording_options) ''a'' of (m1, a) \<Rightarrow>
      case WithName growslice m1 a ''b'' of (m2, b) \<Rightarrow>
      case WithName growslice m2 b ''c'' of (m3, parent) \<Rightarrow>
      case WithName growslice m3 parent ''x'' of (m4, first) \<Rightarrow>
      case WithName growslice m4 parent ''y'' of (m5, second) \<Rightarrow>
        (m3, parent, m4, first, m5, second))"

text \<open>
  The same with values: three pairs accrued one call at a time, then two siblings.
\<close>

definition value_family ::
  "mem \<times> Entry list Logger \<times> mem \<times> Entry list Logger \<times> mem \<times> Entry list Logger" where
  "value_family =
     (case WithValues growslice empty_mem (new_logger recording_options)
             [GString ''k1'', GInt 1] of (m1, a) \<Rightarrow>
      case WithValues growslice m1 a [GString ''k2'', GInt 2] of (m2, b) \<Rightarrow>
      case WithValues growslice m2 b [GString ''k3'', GInt 3] of (m3, parent) \<Rightarrow>
      case WithValues growslice m3 parent [GString ''x'', GBool True] of (m4, first) \<Rightarrow>
      case WithValues growslice m4 parent [GString ''y'', GBool False] of (m5, second) \<Rightarrow>
        (m3, parent, m4, first, m5, second))"

section \<open>What the sinks call outside the repository\<close>

text \<open>
  The library functions the sinks call, taken as given: \<^verbatim>\<open>json.Marshal\<close> on a value,
  the \<^verbatim>\<open>%q\<close> verb of \<^verbatim>\<open>fmt\<close> on a string, the text \<^verbatim>\<open>fmt\<close> gives for \<^verbatim>\<open>%T: %v\<close> on a
  value, the call stack pkg/errors records in a new error, and \<^verbatim>\<open>Time.Format\<close>.
\<close>

record runtime =
  json_Marshal :: "gval \<Rightarrow> gerror + string"
  fmt_q :: "string \<Rightarrow> string"
  fmt_T_v :: "gval \<Rightarrow> string"
  callers :: string
  time_Format :: "time_Time \<Rightarrow> string \<Rightarrow> string"

text \<open>\<^verbatim>\<open>errors.Errorf\<close> and \<^verbatim>\<open>errors.Wrap\<close> of pkg/errors, as the sinks use them.\<close>

definition key_error :: "runtime \<Rightarrow> gval \<Rightarrow> gerror" where
  "key_error rt k =
     GoError (''logging keys must be strings, got '' @ fmt_T_v rt k) (Some (callers rt))"

definition errors_Wrap :: "string \<Rightarrow> gerror \<Rightarrow> string \<Rightarrow> gerror" where
  "errors_Wrap stack err msg = GoError (msg @ '': '' @ err_text err) (Some stack)"

text \<open>
  An \<^verbatim>\<open>io.Writer\<close> acts on the destination \<open>'w\<close>: one \<^verbatim>\<open>Write\<close> call returns an error or
  nil and leaves the destination as the writer chose.
\<close>

type_synonym 'w Writer = "string \<Rightarrow> 'w \<Rightarrow> gerror option \<times> 'w"

text \<open>Calling through a field that may be nil panics when it is.\<close>

definition invoke :: "'f option \<Rightarrow> ('f \<Rightarrow> 'a) \<Rightarrow> 'a outcome" where
  "invoke f k = (case f of None \<Rightarrow> Panic | Some g \<Rightarrow> Return (k g))"

definition and_then :: "'a outcome \<Rightarrow> ('a \<Rightarrow> 'b outcome) \<Rightarrow> 'b outcome" where
  "and_then x f = (case x of Panic \<Rightarrow> Panic | Return a \<Rightarrow> f a)"

definition DefaultTimestampFormat :: string where
  "DefaultTimestampFormat = ''2006-01-02T15:04:05.999999999Z07:00''"

definition DefaultTimestampEncoder :: "runtime \<Rightarrow> string \<Rightarrow> time_Time \<Rightarrow> string" where
  "DefaultTimestampEncoder rt format t = time_Format rt t format"

section \<open>The development sink\<close>

text \<open>
  A \<^verbatim>\<open>*color.Color\<close>: printing through it puts its escape sequences around the text
  when colour is enabled for it, and the text alone otherwise. A nil colour panics.
\<close>

record Color =
  enabled :: bool
  set_seq :: string
  unset_seq :: string

definition paint :: "Color \<Rightarrow> string \<Rightarrow> string" where
  "paint c text = (if enabled c then set_seq c @ text @ unset_seq c else text)"

definition Color_Fprint :: "Color option \<Rightarrow> string \<Rightarrow> string \<Rightarrow> string outcome" where
  "Color_Fprint c buffer text =
     (case c of None \<Rightarrow> Panic | Some col \<Rightarrow> Return (buffer @ paint col text))"

datatype ColourMode = ColourModeAuto | ColourModeForceOff | ColourModeForceOn

record 'w DevelopmentLogSinkOptions =
  Output :: "'w Writer option"
  ColouredOutput :: ColourMode
  SeverityColours :: "string \<Rightarrow> Color option"
  PrimaryColour :: "Color option"
  SecondaryColour :: "Color option"
  SeverityEncoder :: "(int \<Rightarrow> gerror option \<Rightarrow> string) option"
  NameEncoder :: "(string list \<Rightarrow> string) option"
  TimestampEncoder :: "(time_Time \<Rightarrow> string) option"
  ErrorKey :: string
  ErrorEncoder :: "(gerror \<Rightarrow> EncodedError) option"
  EntrySuffix :: string
  SpaceSeparator :: string

text \<open>
  \<^verbatim>\<open>Log\<close> up to the key-value loop: the buffer, the encoded error (the zero value
  without an error). Writing to the buffer cannot fail.
\<close>

definition dev_head ::
  "runtime \<Rightarrow> 'w DevelopmentLogSinkOptions \<Rightarrow> Entry \<Rightarrow> (string \<times> EncodedError) outcome" where
  "dev_head rt d e =
     and_then (invoke (DevelopmentLogSinkOptions.SeverityEncoder d)
                 (\<lambda>f. f (Entry.Level e) (Error e))) (\<lambda>severity.
     let severityColour =
           (case SeverityColours d severity of
              None \<Rightarrow> PrimaryColour d | Some c \<Rightarrow> Some c) in
     and_then (invoke (DevelopmentLogSinkOptions.TimestampEncoder d)
                 (\<lambda>f. f (Timestamp e))) (\<lambda>ts.
     and_then (Color_Fprint (SecondaryColour d) [] ts) (\<lambda>buffer.
     and_then (Color_Fprint severityColour buffer (SpaceSeparator d @ severity)) (\<lambda>buffer.
     and_then (if length (Names e) > 0
               then and_then (invoke (DevelopmentLogSinkOptions.NameEncoder d)
                                (\<lambda>f. f (Names e))) (\<lambda>name.
                      Color_Fprint (PrimaryColour d) buffer (SpaceSeparator d @ name))
               else Return buffer) (\<lambda>buffer.
     and_then (Color_Fprint (PrimaryColour d) buffer (SpaceSeparator d @ Entry.Message e))
       (\<lambda>buffer.
     case Error e of
       None \<Rightarrow> Return (buffer, \<lparr>EncodedError.Message = [], StackTrace = []\<rparr>)
     | Some err \<Rightarrow>
         and_then (invoke (DevelopmentLogSinkOptions.ErrorEncoder d) (\<lambda>f. f err))
           (\<lambda>encodedErr.
         and_then (Color_Fprint severityColour buffer
                     (SpaceSeparator d @ DevelopmentLogSinkOptions.ErrorKey d @ ''='' @
                      fmt_q rt (EncodedError.Message encodedErr))) (\<lambda>buffer.
         Return (buffer, encodedErr)))))))))"

text \<open>
  The loop over the key-value pairs, two elements a round. Reading the value of a last
  key without one is an index out of range.
\<close>

fun dev_kvs ::
  "runtime \<Rightarrow> 'w DevelopmentLogSinkOptions \<Rightarrow> gval list \<Rightarrow> string \<Rightarrow>
   (gerror + string) outcome" where
  "dev_kvs rt d [] buffer = Return (Inr buffer)"
| "dev_kvs rt d [k] buffer = Panic"
| "dev_kvs rt d (k # v # rest) buffer =
     (case k of
        GString kStr \<Rightarrow>
          (case Color_Fprint (SecondaryColour d) buffer (SpaceSeparator d @ kStr @ ''='') of
             Panic \<Rightarrow> Panic
           | Return buffer \<Rightarrow>
               (case json_Marshal rt v of
                  Inl err \<Rightarrow> Return (Inl err)
                | Inr b \<Rightarrow>
                    (case Color_Fprint (PrimaryColour d) buffer b of
                       Panic \<Rightarrow> Panic
                     | Return buffer \<Rightarrow> dev_kvs rt d rest buffer)))
      | _ \<Rightarrow> Return (Inl (key_error rt k)))"

definition DevelopmentLogSink_Log ::
  "runtime \<Rightarrow> 'w DevelopmentLogSinkOptions \<Rightarrow> Entry \<Rightarrow> 'w \<Rightarrow> gerror option outcome \<times> 'w" where
  "DevelopmentLogSink_Log rt d e w =
     (case dev_head rt d e of
        Panic \<Rightarrow> (Panic, w)
      | Return (buffer, encodedErr) \<Rightarrow>
          (case dev_kvs rt d (KVs e) buffer of
             Panic \<Rightarrow> (Panic, w)
           | Return (Inl err) \<Rightarrow> (Return (Some err), w)
           | Return (Inr buffer) \<Rightarrow>
               (case (if StackTrace encodedErr \<noteq> []
                      then Color_Fprint (PrimaryColour d) buffer (StackTrace encodedErr)
                      else Return buffer) of
                  Panic \<Rightarrow> (Panic, w)
                | Return buffer \<Rightarrow>
                    (case DevelopmentLogSinkOptions.Output d of
                       None \<Rightarrow> (Panic, w)
                     | Some write \<Rightarrow>
                         (case write (buffer @ EntrySuffix d) w of
                            (Some err, w') \<Rightarrow> (Return (Some err), w')
                          | (None, w') \<Rightarrow> (Return None, w'))))))"

section \<open>The JSON sink\<close>

record 'w JSONLogSinkOptions =
  Output :: "'w Writer option"
  SeverityKey :: string
  SeverityEncoder :: "(int \<Rightarrow> gerror option \<Rightarrow> string) option"
  NameKey :: string
  NameEncoder :: "(string list \<Rightarrow> string) option"
  MessageKey :: string
  TimestampKey :: string
  TimestampEncoder :: "(time_Time \<Rightarrow> string) option"
  ErrorKey :: string
  StackTraceKey :: string
  ErrorEncoder :: "(gerror \<Rightarrow> EncodedError) option"

text \<open>
  The \<^verbatim>\<open>map[string]interface{}\<close> that \<^verbatim>\<open>Log\<close> fills: a list of members with distinct
  keys, where assigning to a key that is there replaces its value. A Go map has no
  order; the order of the list is never read but through the sorted encoding below.
\<close>

type_synonym json_obj = "(string \<times> gval) list"

text \<open>The fixed fields, in the order \<^verbatim>\<open>Log\<close> assigns them.\<close>

definition json_fixed :: "'w JSONLogSinkOptions \<Rightarrow> Entry \<Rightarrow> json_obj outcome" where
  "json_fixed j e =
     and_then (if TimestampKey j \<noteq> []
               then and_then (invoke (TimestampEncoder j) (\<lambda>f. f (Timestamp e))) (\<lambda>ts.
                      Return (AList.update (TimestampKey j) (GString ts) []))
               else Return []) (\<lambda>obj.
     and_then (if SeverityKey j \<noteq> []
               then and_then (invoke (SeverityEncoder j) (\<lambda>f. f (Entry.Level e) (Error e)))
                      (\<lambda>severity.
                      Return (AList.update (SeverityKey j) (GString severity) obj))
               else Return obj) (\<lambda>obj.
     and_then (if length (Names e) > 0 \<and> NameKey j \<noteq> []
               then and_then (invoke (NameEncoder j) (\<lambda>f. f (Names e))) (\<lambda>name.
                      Return (AList.update (NameKey j) (GString name) obj))
               else Return obj) (\<lambda>obj.
     let obj = (if Entry.Message e \<noteq> [] \<and> MessageKey j \<noteq> []
                then AList.update (MessageKey j) (GString (Entry.Message e)) obj
                else obj) in
     case Error e of
       None \<Rightarrow> Return obj
     | Some err \<Rightarrow>
         if ErrorKey j \<noteq> [] \<or> StackTraceKey j \<noteq> [] then
           and_then (invoke (ErrorEncoder j) (\<lambda>f. f err)) (\<lambda>encodedErr.
           let obj = (if ErrorKey j \<noteq> [] \<and> EncodedError.Message encodedErr \<noteq> []
                      then AList.update (ErrorKey j)
                             (GString (EncodedError.Message encodedErr)) obj
                      else obj);
               obj = (if StackTraceKey j \<noteq> [] \<and> StackTrace encodedErr \<noteq> []
                      then AList.update (StackTraceKey j)
                             (GString (StackTrace encodedErr)) obj
                      else obj)
           in Return obj)
         else Return obj)))"

text \<open>The loop merging the caller's pairs into the object.\<close>

fun json_kvs :: "runtime \<Rightarrow> gval list \<Rightarrow> json_obj \<Rightarrow> (gerror + json_obj) outcome" where
  "json_kvs rt [] obj = Return (Inr obj)"
| "json_kvs rt [k] obj = Panic"
| "json_kvs rt (k # v # rest) obj =
     (case k of
        GString kStr \<Rightarrow> json_kvs rt rest (AList.update kStr v obj)
      | _ \<Rightarrow> Return (Inl (key_error rt k)))"

text \<open>
  \<^verbatim>\<open>json.NewEncoder(w).Encode(obj)\<close> on a map: the members in ascending key order, each
  the key as a JSON string, a colon and the marshalled value; a newline after the
  object. The whole text is built before the one \<^verbatim>\<open>Write\<close>; a value that cannot be
  marshalled is an error before any write. A nil writer panics when written to.
\<close>

fun json_members :: "runtime \<Rightarrow> json_obj \<Rightarrow> gerror + string list" where
  "json_members rt [] = Inr []"
| "json_members rt ((k, v) # rest) =
     (case json_Marshal rt (GString k) of
        Inl err \<Rightarrow> Inl err
      | Inr ks \<Rightarrow>
          (case json_Marshal rt v of
             Inl err \<Rightarrow> Inl err
           | Inr vs \<Rightarrow>
               (case json_members rt rest of
                  Inl err \<Rightarrow> Inl err
                | Inr ms \<Rightarrow> Inr ((ks @ '':'' @ vs) # ms))))"

definition json_Marshal_map :: "runtime \<Rightarrow> json_obj \<Rightarrow> gerror + string" where
  "json_Marshal_map rt obj =
     (case json_members rt (sort_key fst obj) of
        Inl err \<Rightarrow> Inl err
      | Inr ms \<Rightarrow> Inr (''{'' @ strings_Join ms '','' @ ''}''))"

definition Encoder_Encode ::
  "runtime \<Rightarrow> 'w Writer option \<Rightarrow> json_obj \<Rightarrow> 'w \<Rightarrow> gerror option outcome \<times> 'w" where
  "Encoder_Encode rt out obj w =
     (case json_Marshal_map rt obj of
        Inl err \<Rightarrow> (Return (Some err), w)
      | Inr b \<Rightarrow>
          (case out of
             None \<Rightarrow> (Panic, w)
           | Some write \<Rightarrow>
               (case write (b @ [CHR 0x0A]) w of (r, w') \<Rightarrow> (Return r, w'))))"

definition JSONLogSink_Log ::
  "runtime \<Rightarrow> 'w JSONLogSinkOptions \<Rightarrow> Entry \<Rightarrow> 'w \<Rightarrow> gerror option outcome \<times> 'w" where
  "JSONLogSink_Log rt j e w =
     (case json_fixed j e of
        Panic \<Rightarrow> (Panic, w)
      | Return obj \<Rightarrow>
          (case json_kvs rt (KVs e) obj of
             Panic \<Rightarrow> (Panic, w)
           | Return (Inl err) \<Rightarrow> (Return (Some err), w)
           | Return (Inr obj) \<Rightarrow>
               (case Encoder_Encode rt (Output j) obj w of
                  (Panic, w') \<Rightarrow> (Panic, w')
                | (Return None, w') \<Rightarrow> (Return None, w')
                | (Return (Some err), w') \<Rightarrow>
                    (Return (Some (errors_Wrap (callers rt) err
                       ''failed to encode log entry as JSON'')), w'))))"

text \<open>
  \<^verbatim>\<open>AssertDefaults\<close>: every field still at its zero value (a nil writer or function, an
  empty string) gets its default. \<open>stderr\<close> is the writer \<^verbatim>\<open>os.Stderr\<close>.
\<close>

definition JSONLogSinkOptions_AssertDefaults ::
  "runtime \<Rightarrow> 'w Writer \<Rightarrow> 'w JSONLogSinkOptions \<Rightarrow> 'w JSONLogSinkOptions" where
  "JSONLogSinkOptions_AssertDefaults rt stderr j =
     (let j = (if Output j = None then j\<lparr>Output := Some stderr\<rparr> else j);
          j = (if SeverityKey j = [] then j\<lparr>SeverityKey := DefaultSeverityKey\<rparr> else j);
          j = (if SeverityEncoder j = None
               then j\<lparr>SeverityEncoder := Some (DefaultSeverityEncoder DefaultSeverity
                        DefaultErrorSeverity DefaultSeverityThresholds)\<rparr>
               else j);
          j = (if NameKey j = [] then j\<lparr>NameKey := DefaultNameKey\<rparr> else j);
          j = (if NameEncoder j = None
               then j\<lparr>NameEncoder := Some (DefaultNameEncoder DefaultNameSeparator)\<rparr>
               else j);
          j = (if MessageKey j = [] then j\<lparr>MessageKey := DefaultMessageKey\<rparr> else j);
          j = (if TimestampKey j = [] then j\<lparr>TimestampKey := DefaultTimestampKey\<rparr> else j);
          j = (if TimestampEncoder j = None
               then j\<lparr>TimestampEncoder :=
                        Some (DefaultTimestampEncoder rt DefaultTimestampFormat)\<rparr>
               else j);
          j = (if ErrorKey j = [] then j\<lparr>ErrorKey := DefaultErrorKey\<rparr> else j);
          j = (if StackTraceKey j = []
               then j\<lparr>StackTraceKey := DefaultStackTraceKey\<rparr> else j);
          j = (if ErrorEncoder j = None
               then j\<lparr>ErrorEncoder := Some DefaultErrorEncoder\<rparr> else j)
      in j)"

definition NewJSONLogSink :: "'w JSONLogSinkOptions \<Rightarrow> 'w JSONLogSinkOptions" where
  "NewJSONLogSink opts = opts"

section \<open>Notions the properties are stated with\<close>

text \<open>
  The pairs of a key-value sequence, when it has an even length and a string at every
  key position.
\<close>

fun kv_pairs :: "gval list \<Rightarrow> (string \<times> gval) list option" where
  "kv_pairs [] = Some []"
| "kv_pairs [k] = None"
| "kv_pairs (k # v # rest) =
     (case k of
        GString kStr \<Rightarrow> map_option (\<lambda>ps. (kStr, v) # ps) (kv_pairs rest)
      | _ \<Rightarrow> None)"

text \<open>The elements at the key positions, and those at the value positions.\<close>

fun kv_keys :: "gval list \<Rightarrow> gval list" where
  "kv_keys [] = []"
| "kv_keys [k] = [k]"
| "kv_keys (k # v # rest) = k # kv_keys rest"

fun kv_values :: "gval list \<Rightarrow> gval list" where
  "kv_values [] = []"
| "kv_values [k] = []"
| "kv_values (k # v # rest) = v # kv_values rest"

fun is_string :: "gval \<Rightarrow> bool" where
  "is_string (GString s) = True"
| "is_string v = False"

definition marshals :: "runtime \<Rightarrow> gval \<Rightarrow> bool" where
  "marshals rt v = (case json_Marshal rt v of Inl err \<Rightarrow> False | Inr b \<Rightarrow> True)"

definition marshalled :: "runtime \<Rightarrow> gval \<Rightarrow> string" where
  "marshalled rt v = (case json_Marshal rt v of Inl err \<Rightarrow> [] | Inr b \<Rightarrow> b)"

text \<open>Options with no nil field, as \<^verbatim>\<open>AssertDefaults\<close> leaves them.\<close>

definition dev_options_ok :: "'w DevelopmentLogSinkOptions \<Rightarrow> bool" where
  "dev_options_ok d =
     (DevelopmentLogSinkOptions.Output d \<noteq> None \<and> PrimaryColour d \<noteq> None \<and>
      SecondaryColour d \<noteq> None \<and>
      DevelopmentLogSinkOptions.SeverityEncoder d \<noteq> None \<and>
      DevelopmentLogSinkOptions.NameEncoder d \<noteq> None \<and>
      DevelopmentLogSinkOptions.TimestampEncoder d \<noteq> None \<and>
      DevelopmentLogSinkOptions.ErrorEncoder d \<noteq> None)"

definition json_options_ok :: "'w JSONLogSinkOptions \<Rightarrow> bool" where
  "json_options_ok j =
     (Output j \<noteq> None \<and> SeverityEncoder j \<noteq> None \<and> NameEncoder j \<noteq> None \<and>
      TimestampEncoder j \<noteq> None \<and> ErrorEncoder j \<noteq> None)"

text \<open>
  One text line in closed form, for options with no nil field and a key-value sequence
  of pairs that marshal. \<open>before_trace\<close> is what stands between the last pair and the
  stack trace.
\<close>

definition text_kv_segment :: "runtime \<Rightarrow> 'w DevelopmentLogSinkOptions \<Rightarrow> string \<times> gval \<Rightarrow> string" where
  "text_kv_segment rt d kv =
     paint (the (SecondaryColour d)) (SpaceSeparator d @ fst kv @ ''='') @
     paint (the (PrimaryColour d)) (marshalled rt (snd kv))"

definition text_line_with ::
  "string \<Rightarrow> runtime \<Rightarrow> 'w DevelopmentLogSinkOptions \<Rightarrow> Entry \<Rightarrow> (string \<times> gval) list \<Rightarrow> string" where
  "text_line_with before_trace rt d e pairs =
     (let sep = SpaceSeparator d;
          primary = the (PrimaryColour d);
          secondary = the (SecondaryColour d);
          severity = the (DevelopmentLogSinkOptions.SeverityEncoder d) (Entry.Level e) (Error e);
          severityColour = (case SeverityColours d severity of
                              None \<Rightarrow> primary | Some c \<Rightarrow> c)
      in paint secondary (the (DevelopmentLogSinkOptions.TimestampEncoder d) (Timestamp e)) @
         paint severityColour (sep @ severity) @
         (if Names e \<noteq> []
          then paint primary (sep @ the (DevelopmentLogSinkOptions.NameEncoder d) (Names e))
          else []) @
         paint primary (sep @ Entry.Message e) @
         (case Error e of
            None \<Rightarrow> []
          | Some err \<Rightarrow>
              paint severityColour
                (sep @ DevelopmentLogSinkOptions.ErrorKey d @ ''='' @
                 fmt_q rt (EncodedError.Message
                   (the (DevelopmentLogSinkOptions.ErrorEncoder d) err)))) @
         concat (map (text_kv_segment rt d) pairs) @
         (case Error e of
            None \<Rightarrow> []
          | Some err \<Rightarrow>
              (let tr = StackTrace (the (DevelopmentLogSinkOptions.ErrorEncoder d) err)
               in if tr \<noteq> [] then paint primary (before_trace @ tr) else [])) @
         EntrySuffix d)"

text \<open>The line as the sink builds it: nothing stands before the stack trace.\<close>

definition text_line ::
  "runtime \<Rightarrow> 'w DevelopmentLogSinkOptions \<Rightarrow> Entry \<Rightarrow> (string \<times> gval) list \<Rightarrow> string" where
  "text_line rt d e pairs = text_line_with [] rt d e pairs"

text \<open>
  The line in the words of the specification: a separator before every field after the
  timestamp, the stack trace included.
\<close>

definition spec_text_line ::
  "runtime \<Rightarrow> 'w DevelopmentLogSinkOptions \<Rightarrow> Entry \<Rightarrow> (string \<times> gval) list \<Rightarrow> string" where
  "spec_text_line rt d e pairs = text_line_with (SpaceSeparator d) rt d e pairs"

text \<open>
  The members of a JSON object for the caller's pairs in the words of the
  specification: one per pair, in the order of the key-value sequence.
\<close>

definition spec_json_members :: "runtime \<Rightarrow> (string \<times> gval) list \<Rightarrow> string list" where
  "spec_json_members rt pairs =
     map (\<lambda>kv. marshalled rt (GString (fst kv)) @ '':'' @ marshalled rt (snd kv)) pairs"

section \<open>Sample inputs\<close>

definition dq :: string where
  "dq = [CHR 0x22]"

fun digits :: "nat \<Rightarrow> string" where
  "digits n =
     (if n < 10 then [char_of (48 + n)]
      else digits (n div 10) @ [char_of (48 + n mod 10)])"

text \<open>
  \<^verbatim>\<open>json.Marshal\<close> on strings that need no escaping, integers, booleans and nil; a
  function value is an unsupported type.
\<close>

fun sample_marshal :: "gval \<Rightarrow> gerror + string" where
  "sample_marshal (GString s) = Inr (dq @ s @ dq)"
| "sample_marshal (GInt i) = Inr ((if i < 0 then ''-'' else []) @ digits (nat \<bar>i\<bar>))"
| "sample_marshal (GBool b) = Inr (if b then ''true'' else ''false'')"
| "sample_marshal GNil = Inr ''null''"
| "sample_marshal GFunc = Inl (GoError ''json: unsupported type: func()'' None)"

fun sample_T_v :: "gval \<Rightarrow> string" where
  "sample_T_v (GString s) = ''string: '' @ s"
| "sample_T_v (GInt i) = ''int: '' @ (if i < 0 then ''-'' else []) @ digits (nat \<bar>i\<bar>)"
| "sample_T_v (GBool b) = ''bool: '' @ (if b then ''true'' else ''false'')"
| "sample_T_v GNil = ''<nil>: <nil>''"
| "sample_T_v GFunc = ''func(): 0x1''"

definition sample_rt :: runtime where
  "sample_rt =
     \<lparr>json_Marshal = sample_marshal,
      fmt_q = (\<lambda>s. dq @ s @ dq),
      fmt_T_v = sample_T_v,
      callers = ''stk'',
      time_Format = (\<lambda>t format. ''<ts>'')\<rparr>"

text \<open>
  A destination that is the text written so far: a writer that appends all it is
  given, and one that appends the first \<open>n\<close> bytes and reports an error.
\<close>

definition buffer_writer :: "string Writer" where
  "buffer_writer p w = (None, w @ p)"

definition short_writer :: "nat \<Rightarrow> string Writer" where
  "short_writer n p w = (Some (GoError ''short write'' None), w @ take n p)"

definition plain :: Color where
  "plain = \<lparr>enabled = False, set_seq = [], unset_seq = []\<rparr>"

definition dev_sample_options :: "string Writer \<Rightarrow> string DevelopmentLogSinkOptions" where
  "dev_sample_options out =
     \<lparr>DevelopmentLogSinkOptions.Output = Some out,
      ColouredOutput = ColourModeForceOff,
      SeverityColours = Map.empty,
      PrimaryColour = Some plain,
      SecondaryColour = Some plain,
      DevelopmentLogSinkOptions.SeverityEncoder =
        Some (DefaultSeverityEncoder DefaultSeverity DefaultErrorSeverity
                DefaultSeverityThresholds),
      DevelopmentLogSinkOptions.NameEncoder = Some (DefaultNameEncoder DefaultNameSeparator),
      DevelopmentLogSinkOptions.TimestampEncoder =
        Some (DefaultTimestampEncoder sample_rt DefaultTimestampFormat),
      DevelopmentLogSinkOptions.ErrorKey = DefaultErrorKey,
      DevelopmentLogSinkOptions.ErrorEncoder = Some DefaultErrorEncoder,
      EntrySuffix = DefaultEntrySuffix,
      SpaceSeparator = DefaultSpaceSeparator\<rparr>"

definition json_zero_options :: "'w JSONLogSinkOptions" where
  "json_zero_options =
     \<lparr>Output = None, SeverityKey = [], SeverityEncoder = None, NameKey = [],
      NameEncoder = None, MessageKey = [], TimestampKey = [], TimestampEncoder = None,
      ErrorKey = [], StackTraceKey = [], ErrorEncoder = None\<rparr>"

text \<open>
  \<^verbatim>\<open>opts := JSONLogSinkOptions{Output: out}; opts.AssertDefaults()\<close>, as in the
  repository's example program.
\<close>

definition json_sample_options :: "string Writer \<Rightarrow> string JSONLogSinkOptions" where
  "json_sample_options out =
     JSONLogSinkOptions_AssertDefaults sample_rt buffer_writer
       (json_zero_options\<lparr>Output := Some out\<rparr>)"

definition entry0 :: Entry where
  "entry0 = \<lparr>Level = 0, Names = [], Timestamp = 0, Message = [], KVs = [], Error = None\<rparr>"

section \<open>The severity encoder\<close>

lemma scan_thresholds_find:
  "scan_thresholds d ths level =
     (case find (\<lambda>t. SeverityThreshold.Level t \<le> level) ths of
        None \<Rightarrow> d | Some t \<Rightarrow> Severity t)"
  by (induction ths) simp_all

lemma scan_thresholds_first:
  assumes "i < length ths"
    and "SeverityThreshold.Level (ths ! i) \<le> level"
    and "\<forall>j<i. level < SeverityThreshold.Level (ths ! j)"
  shows "scan_thresholds d ths level = Severity (ths ! i)"
  using assms
proof (induction ths arbitrary: i)
  case Nil
  then show ?case by simp
next
  case (Cons t ts)
  show ?case
  proof (cases i)
    case 0
    with Cons.prems show ?thesis by simp
  next
    case (Suc k)
    from Cons.prems(3) Suc have head: "level < SeverityThreshold.Level t"
      by (metis nth_Cons_0 zero_less_Suc)
    have rest: "\<forall>j<k. level < SeverityThreshold.Level (ts ! j)"
    proof (intro allI impI)
      fix j assume "j < k"
      then have "Suc j < i" using Suc by simp
      with Cons.prems(3) have "level < SeverityThreshold.Level ((t # ts) ! Suc j)" by blast
      then show "level < SeverityThreshold.Level (ts ! j)" by simp
    qed
    from Cons.prems Suc have "k < length ts" "SeverityThreshold.Level (ts ! k) \<le> level"
      by simp_all
    from Cons.IH [OF this rest] head Suc show ?thesis by simp
  qed
qed

lemma scan_thresholds_none:
  "\<forall>t \<in> set ths. level < SeverityThreshold.Level t \<Longrightarrow> scan_thresholds d ths level = d"
  by (induction ths) simp_all

text \<open>
  Claim C3. The severity encoder returns the error severity whenever the error is
  non-nil, whatever the level. With a nil error it returns the severity of the first
  threshold, in list order, whose level bound is at most the verbosity level: the
  threshold at any position \<open>i\<close> that matches while no earlier one does, sorted list or
  not. When no threshold matches it returns the default severity.
\<close>

theorem severity_encoder_policy:
  "(err \<noteq> None \<longrightarrow> DefaultSeverityEncoder d es ths level err = es) \<and>
   (err = None \<longrightarrow>
      (\<forall>i < length ths.
          SeverityThreshold.Level (ths ! i) \<le> level \<and>
          (\<forall>j < i. level < SeverityThreshold.Level (ths ! j)) \<longrightarrow>
          DefaultSeverityEncoder d es ths level err = Severity (ths ! i)) \<and>
      ((\<forall>t \<in> set ths. level < SeverityThreshold.Level t) \<longrightarrow>
          DefaultSeverityEncoder d es ths level err = d) \<and>
      DefaultSeverityEncoder d es ths level err =
        (case find (\<lambda>t. SeverityThreshold.Level t \<le> level) ths of
           None \<Rightarrow> d | Some t \<Rightarrow> Severity t))"
proof (intro conjI impI allI)
  assume "err \<noteq> None"
  then show "DefaultSeverityEncoder d es ths level err = es"
    by (simp add: DefaultSeverityEncoder_def)
next
  fix i
  assume "err = None" "i < length ths"
    and "SeverityThreshold.Level (ths ! i) \<le> level \<and>
         (\<forall>j < i. level < SeverityThreshold.Level (ths ! j))"
  then show "DefaultSeverityEncoder d es ths level err = Severity (ths ! i)"
    by (simp add: DefaultSeverityEncoder_def scan_thresholds_first)
next
  assume "err = None" "\<forall>t \<in> set ths. level < SeverityThreshold.Level t"
  then show "DefaultSeverityEncoder d es ths level err = d"
    by (simp add: DefaultSeverityEncoder_def scan_thresholds_none)
next
  assume "err = None"
  then show "DefaultSeverityEncoder d es ths level err =
        (case find (\<lambda>t. SeverityThreshold.Level t \<le> level) ths of
           None \<Rightarrow> d | Some t \<Rightarrow> Severity t)"
    by (simp add: DefaultSeverityEncoder_def scan_thresholds_find)
qed

text \<open>
  The policy at concrete inputs: an error at a verbose level, an unsorted threshold list
  where the first match is not the highest one, and a level below every threshold.
\<close>

theorem severity_encoder_policy_witness:
  "DefaultSeverityEncoder ''INFO'' ''ERROR'' DefaultSeverityThresholds 2
      (Some (GoError ''boom'' None)) = ''ERROR'' \<and>
   DefaultSeverityEncoder ''INFO'' ''ERROR''
      [\<lparr>SeverityThreshold.Level = 1, Severity = ''DEBUG''\<rparr>, \<lparr>SeverityThreshold.Level = 2, Severity = ''TRACE''\<rparr>] 2 None
      = ''DEBUG'' \<and>
   DefaultSeverityEncoder ''INFO'' ''ERROR'' DefaultSeverityThresholds 0 None = ''INFO''"
proof (intro conjI)
  show "DefaultSeverityEncoder ''INFO'' ''ERROR'' DefaultSeverityThresholds 2
      (Some (GoError ''boom'' None)) = ''ERROR''"
    using severity_encoder_policy
      [of "Some (GoError ''boom'' None)" "''INFO''" "''ERROR''" DefaultSeverityThresholds 2]
    by simp
next
  let ?ths = "[\<lparr>SeverityThreshold.Level = 1, Severity = ''DEBUG''\<rparr>, \<lparr>SeverityThreshold.Level = 2, Severity = ''TRACE''\<rparr>]"
  have "\<forall>i < length ?ths.
          SeverityThreshold.Level (?ths ! i) \<le> 2 \<and>
          (\<forall>j < i. 2 < SeverityThreshold.Level (?ths ! j)) \<longrightarrow>
          DefaultSeverityEncoder ''INFO'' ''ERROR'' ?ths 2 None = Severity (?ths ! i)"
    using severity_encoder_policy [of None "''INFO''" "''ERROR''" ?ths 2] by blast
  from this [rule_format, of 0]
  show "DefaultSeverityEncoder ''INFO'' ''ERROR'' ?ths 2 None = ''DEBUG''"
    by simp
next
  have "(\<forall>t \<in> set DefaultSeverityThresholds. 0 < SeverityThreshold.Level t) \<longrightarrow>
          DefaultSeverityEncoder ''INFO'' ''ERROR'' DefaultSeverityThresholds 0 None = ''INFO''"
    using severity_encoder_policy [of None "''INFO''" "''ERROR''" DefaultSeverityThresholds 0]
    by blast
  then show "DefaultSeverityEncoder ''INFO'' ''ERROR'' DefaultSeverityThresholds 0 None = ''INFO''"
    by (simp add: DefaultSeverityThresholds_def DefaultTraceVerbosity_def
        DefaultDebugVerbosity_def)
qed

section \<open>The Logger\<close>

lemma make_copy:
  assumes "length vals = n"
  shows "(let kvs = replicate (n + length xs) GNil;
             kvs = go_copy (take n kvs) vals @ drop n kvs;
             kvs = take n kvs @ go_copy (drop n kvs) xs
          in kvs) = vals @ xs"
  using assms by (simp add: go_copy_def Let_def)

lemma slice_elems_length: "slice_ok h s \<Longrightarrow> length (slice_elems h s) = len s"
  by (simp add: slice_ok_def slice_elems_def)

lemma log_odd:
  assumes "slice_ok (values_heap m) (values l)"
    and "odd (length (logger_values m l) + length keysAndValues)"
  shows "Logger_log m l now stack level err msg keysAndValues w =
     dispatch (options l)
       \<lparr>Level = 0, Names = logger_names m l, Timestamp = now, Message = [], KVs = [],
        Error = Some (usage_error stack)\<rparr> w"
proof -
  have "len (values l) = length (logger_values m l)"
    using assms(1) by (simp add: logger_values_def slice_elems_length)
  with assms(2) have "odd (len (values l) + length keysAndValues)"
    by simp
  then have "(len (values l) + length keysAndValues) mod 2 \<noteq> 0"
    by presburger
  then show ?thesis
    by (simp add: Logger_log_def dispatch_def logger_names_def usage_error_def Let_def)
qed

lemma log_even:
  assumes "slice_ok (values_heap m) (values l)"
    and "even (length (logger_values m l) + length keysAndValues)"
  shows "Logger_log m l now stack level err msg keysAndValues w =
     dispatch (options l)
       \<lparr>Level = level, Names = logger_names m l, Timestamp = now, Message = msg,
        KVs = logger_values m l @ keysAndValues, Error = err\<rparr> w"
proof -
  have n: "length (logger_values m l) = len (values l)"
    using assms(1) by (simp add: logger_values_def slice_elems_length)
  with assms(2) have "even (len (values l) + length keysAndValues)"
    by simp
  then have ev: "(len (values l) + length keysAndValues) mod 2 = 0"
    by presburger
  have "length (slice_elems (values_heap m) (values l)) = len (values l)"
    using n by (simp add: logger_values_def)
  from make_copy [OF this, of keysAndValues] ev show ?thesis
    by (simp add: Logger_log_def dispatch_def logger_names_def logger_values_def Let_def)
qed

text \<open>
  Claim C1. A logging call, \<^verbatim>\<open>Info\<close> or \<^verbatim>\<open>Error\<close>, on a Logger whose accrued values
  together with the call's own key-value arguments are odd in number hands the sink one
  degraded entry and nothing else: level 0, the accrued names, the captured timestamp,
  an empty message, no key-value pairs and the usage error; the message, the level, the
  error and the arguments of the call are dropped. When the number is even the sink
  gets the intended entry: the call's level, message and error, and the accrued values
  followed by the call's arguments. A returned sink error goes to the error handler in
  both cases.
\<close>

theorem log_argument_parity:
  assumes "slice_ok (values_heap m) (values l)"
  shows "(odd (length (logger_values m l) + length keysAndValues) \<longrightarrow>
            Logger_Info m l now stack level msg keysAndValues w =
              dispatch (options l)
                \<lparr>Level = 0, Names = logger_names m l, Timestamp = now, Message = [],
                 KVs = [], Error = Some (usage_error stack)\<rparr> w \<and>
            Logger_Error m l now stack err msg keysAndValues w =
              dispatch (options l)
                \<lparr>Level = 0, Names = logger_names m l, Timestamp = now, Message = [],
                 KVs = [], Error = Some (usage_error stack)\<rparr> w) \<and>
         (even (length (logger_values m l) + length keysAndValues) \<longrightarrow>
            Logger_Info m l now stack level msg keysAndValues w =
              dispatch (options l)
                \<lparr>Level = level, Names = logger_names m l, Timestamp = now, Message = msg,
                 KVs = logger_values m l @ keysAndValues, Error = None\<rparr> w \<and>
            Logger_Error m l now stack err msg keysAndValues w =
              dispatch (options l)
                \<lparr>Level = 0, Names = logger_names m l, Timestamp = now, Message = msg,
                 KVs = logger_values m l @ keysAndValues, Error = err\<rparr> w)"
  using assms
  by (simp add: Logger_Info_def Logger_Error_def log_odd log_even)

lemma sample_parent_eval:
  "logger_values (fst sample_parent) (snd sample_parent) = [GString ''k'', GInt 7]"
  "logger_names (fst sample_parent) (snd sample_parent) = [''a'']"
  "slice_ok (values_heap (fst sample_parent)) (values (snd sample_parent))"
  "options (snd sample_parent) = recording_options"
  by (simp_all add: sample_parent_def WithName_def WithValues_def go_append_def growslice_def
      empty_mem_def empty_heap_def new_logger_def nil_slice_def logger_values_def
      logger_names_def slice_elems_def slice_ok_def Let_def)

text \<open>
  On the Logger \<^verbatim>\<open>New(opts).WithName("a").WithValues("k", 7)\<close> with a recording sink:
  \<^verbatim>\<open>Info(1, "hello", "x")\<close> makes three values, and the sink receives the degraded
  entry; \<^verbatim>\<open>Error(boom, "oops", "x", true)\<close> makes four, and the sink receives the
  entry as intended.
\<close>

theorem log_argument_parity_witness:
  "slice_ok (values_heap (fst sample_parent)) (values (snd sample_parent)) \<and>
   Logger_Info (fst sample_parent) (snd sample_parent) 5 ''stk'' 1 ''hello''
       [GString ''x''] [] =
     (Return (),
      [\<lparr>Level = 0, Names = [''a''], Timestamp = 5, Message = [], KVs = [],
        Error = Some (GoError
          ''odd number of arguments passed as key-value pairs for logging''
          (Some ''stk''))\<rparr>]) \<and>
   Logger_Error (fst sample_parent) (snd sample_parent) 5 ''stk''
       (Some (GoError ''boom'' None)) ''oops'' [GString ''x'', GBool True] [] =
     (Return (),
      [\<lparr>Level = 0, Names = [''a''], Timestamp = 5, Message = ''oops'',
        KVs = [GString ''k'', GInt 7, GString ''x'', GBool True],
        Error = Some (GoError ''boom'' None)\<rparr>])"
  using log_argument_parity [OF sample_parent_eval(3), of "[GString ''x'']" 5 "''stk''" 1
      "''hello''" "[]" "Some (GoError ''boom'' None)"]
    log_argument_parity [OF sample_parent_eval(3), of "[GString ''x'', GBool True]" 5 "''stk''" 1
      "''oops''" "[]" "Some (GoError ''boom'' None)"]
  by (simp add: sample_parent_eval dispatch_def recording_options_def recording_sink_def
      usage_error_def errors_New_def)

section \<open>Derived Loggers\<close>

text \<open>
  What \<^verbatim>\<open>append\<close> gives at the moment it returns: the new view reads the old elements
  followed by the new ones, and the old view still reads what it read.
\<close>

lemma go_append_elems:
  assumes "slice_ok h s" and "go_append grow z h s xs = (h', s')"
  shows "slice_elems h' s' = slice_elems h s @ xs" and "slice_elems h' s = slice_elems h s"
  using assms
  by (auto simp: go_append_def slice_ok_def slice_elems_def Let_def split: if_splits)

text \<open>
  With room for one more element in the backing array, a second \<^verbatim>\<open>append\<close> to the
  same slice writes where the first one wrote: the first result then reads the
  element of the second.
\<close>

lemma go_append_twice_in_place:
  assumes "slice_ok h s" and "len s < cap s"
    and "go_append grow z h s [x] = (h1, s1)"
    and "go_append grow z h1 s [y] = (h2, s2)"
  shows "slice_elems h1 s1 = slice_elems h s @ [x]"
    and "slice_elems h2 s1 = slice_elems h s @ [y]"
    and "slice_elems h2 s2 = slice_elems h s @ [y]"
  using assms
  by (auto simp: go_append_def slice_ok_def slice_elems_def Let_def split: if_splits)

text \<open>
  Claim C2, at the input where the code departs from it.
  \<^verbatim>\<open>parent := New(opts).WithName("a").WithName("b").WithName("c")\<close> holds three names in
  a backing array of capacity four. \<^verbatim>\<open>first := parent.WithName("x")\<close> reads a, b, c, x
  when it is made. After \<^verbatim>\<open>second := parent.WithName("y")\<close> both siblings are views of
  one array, and \<open>first\<close> reads a, b, c, y: the second derivation has changed the names
  of the first. The same happens to the values of two siblings made by
  \<^verbatim>\<open>WithValues\<close> from a parent holding six values in an array of capacity eight.
\<close>

theorem derived_siblings_interfere:
  "(case name_family of (m3, parent, m4, first, m5, second) \<Rightarrow>
      logger_names m3 parent = [''a'', ''b'', ''c''] \<and>
      cap (names parent) = 4 \<and>
      logger_names m4 first = [''a'', ''b'', ''c'', ''x''] \<and>
      logger_names m5 second = [''a'', ''b'', ''c'', ''y''] \<and>
      logger_names m5 first = [''a'', ''b'', ''c'', ''y''] \<and>
      ptr (names first) = ptr (names second)) \<and>
   (case value_family of (m3, parent, m4, first, m5, second) \<Rightarrow>
      length (logger_values m3 parent) = 6 \<and>
      cap (values parent) = 8 \<and>
      logger_values m4 first = logger_values m3 parent @ [GString ''x'', GBool True] \<and>
      logger_values m5 second = logger_values m3 parent @ [GString ''y'', GBool False] \<and>
      logger_values m5 first = logger_values m3 parent @ [GString ''y'', GBool False] \<and>
      ptr (values first) = ptr (values second))"
  by (simp add: name_family_def value_family_def WithName_def WithValues_def go_append_def
      growslice_def empty_mem_def empty_heap_def new_logger_def nil_slice_def
      logger_names_def logger_values_def slice_elems_def Let_def)

end
